theory Spec2Isabelle
  imports Main
begin

section \<open>The configuration header platform-top.h\<close>

text \<open>
  The header is eleven lines of preprocessor directives:
  \<^verbatim>\<open>
   1  #include <configs/xilinx_zynqmp.h>
   2
   3  #define CONFIG_BOOTCOMMAND "run bootcmd_pxe"
   4
   5  #undef BOOT_TARGET_DEVICES
   6  #define BOOT_TARGET_DEVICES(func) \
   7          func(PXE, pxe, na) \
   8          func(MMC, mmc, 1) \
   9          func(MMC, mmc, 0) \
  10          func(USB, usb, 0) \
  11          func(DHCP, dhcp, na)
  \<close>
  It is modelled twice. The directives are kept as data (a list of directives over
  preprocessing tokens) and run by a small model of the C preprocessor: a macro table,
  argument collection, parameter substitution and rescanning. The two macros are also
  written as the HOL values they denote: a string, and a function of the generator
  macro. The lemma \<open>expand_BOOT_TARGET_DEVICES\<close> shows that the preprocessor model,
  run on the directives, computes the HOL function.
  A second scanner passes the state of the preprocessor (the counter of
  \<open>__COUNTER__\<close> and the current line) along, for the property that the expansion
  of the boot target list neither reads nor changes it.
\<close>

subsection \<open>Preprocessing tokens and directives\<close>

datatype token =
    Ident string
  | PPNumber string
  | StringLit string
  | LParen
  | RParen
  | Comma

text \<open>A macro argument is the token sequence between two separators.\<close>

type_synonym arg = "token list"

text \<open>
  The header that defines the generator macros (U-Boot's distro boot command header) is
  not part of this repository. A generator is therefore a function of its three
  arguments: \<open>External3 gen\<close> is a three-parameter function-like macro whose
  expansion on the arguments \<open>c\<close>, \<open>t\<close>, \<open>q\<close> is \<open>gen c t q\<close>.
\<close>

datatype macro =
    ObjectLike "token list"
  | FunctionLike "string list" "token list"
  | External3 "arg \<Rightarrow> arg \<Rightarrow> arg \<Rightarrow> token list"

datatype directive =
    Include string
  | Define string macro
  | Undef string

type_synonym macros = "string \<rightharpoonup> macro"

subsection \<open>The two macros as HOL values\<close>

text \<open>Line 3: the replacement of \<open>CONFIG_BOOTCOMMAND\<close> is one string literal.\<close>

definition CONFIG_BOOTCOMMAND :: string where
  "CONFIG_BOOTCOMMAND = ''run bootcmd_pxe''"

text \<open>
  Lines 6 to 11: five invocations of the parameter \<open>func\<close>, one after the other.
  Juxtaposition of the expansions is concatenation of their output.
\<close>

definition BOOT_TARGET_DEVICES :: "(arg \<Rightarrow> arg \<Rightarrow> arg \<Rightarrow> 'a list) \<Rightarrow> 'a list" where
  "BOOT_TARGET_DEVICES func =
     func [Ident ''PXE''] [Ident ''pxe''] [Ident ''na''] @
     func [Ident ''MMC''] [Ident ''mmc''] [PPNumber ''1''] @
     func [Ident ''MMC''] [Ident ''mmc''] [PPNumber ''0''] @
     func [Ident ''USB''] [Ident ''usb''] [PPNumber ''0''] @
     func [Ident ''DHCP''] [Ident ''dhcp''] [Ident ''na'']"

subsection \<open>The header as a list of directives\<close>

text \<open>The replacement list of lines 7 to 11, token by token.\<close>

definition BOOT_TARGET_DEVICES_body :: "token list" where
  "BOOT_TARGET_DEVICES_body =
     [Ident ''func'', LParen, Ident ''PXE'', Comma, Ident ''pxe'', Comma, Ident ''na'', RParen,
      Ident ''func'', LParen, Ident ''MMC'', Comma, Ident ''mmc'', Comma, PPNumber ''1'', RParen,
      Ident ''func'', LParen, Ident ''MMC'', Comma, Ident ''mmc'', Comma, PPNumber ''0'', RParen,
      Ident ''func'', LParen, Ident ''USB'', Comma, Ident ''usb'', Comma, PPNumber ''0'', RParen,
      Ident ''func'', LParen, Ident ''DHCP'', Comma, Ident ''dhcp'', Comma, Ident ''na'', RParen]"

definition platform_top_h :: "directive list" where
  "platform_top_h =
     [Include ''configs/xilinx_zynqmp.h'',
      Define ''CONFIG_BOOTCOMMAND'' (ObjectLike [StringLit CONFIG_BOOTCOMMAND]),
      Undef ''BOOT_TARGET_DEVICES'',
      Define ''BOOT_TARGET_DEVICES'' (FunctionLike [''func''] BOOT_TARGET_DEVICES_body)]"

subsection \<open>Running directives\<close>

text \<open>
  The included vendor header is not in the repository: its effect on the macro table is
  the parameter \<open>inc\<close>. A \<open>#define\<close> binds the name (for a name that is already
  bound the new definition replaces the old one, which is what GCC does after reporting
  the redefinition) and \<open>#undef\<close> removes the binding.
\<close>

fun exec :: "(string \<Rightarrow> macros \<Rightarrow> macros) \<Rightarrow> directive \<Rightarrow> macros \<Rightarrow> macros" where
  "exec inc (Include f) m = inc f m"
| "exec inc (Define n d) m = m(n \<mapsto> d)"
| "exec inc (Undef n) m = m(n := None)"

definition preprocess :: "(string \<Rightarrow> macros \<Rightarrow> macros) \<Rightarrow> directive list \<Rightarrow> macros \<Rightarrow> macros" where
  "preprocess inc ds m = fold (exec inc) ds m"

text \<open>The names a directive list defines and undefines, in the order of the text.\<close>

fun defined_names :: "directive list \<Rightarrow> string list" where
  "defined_names [] = []"
| "defined_names (Define n d # ds) = n # defined_names ds"
| "defined_names (_ # ds) = defined_names ds"

fun undefined_names :: "directive list \<Rightarrow> string list" where
  "undefined_names [] = []"
| "undefined_names (Undef n # ds) = n # undefined_names ds"
| "undefined_names (_ # ds) = undefined_names ds"

text \<open>
  The undefine-then-redefine pattern for a name: somewhere in the list an \<open>#undef\<close>
  of the name stands before a \<open>#define\<close> of it.
\<close>

fun undef_then_define :: "string \<Rightarrow> directive list \<Rightarrow> bool" where
  "undef_then_define n [] = False"
| "undef_then_define n (Undef x # ds) =
     ((x = n \<and> n \<in> set (defined_names ds)) \<or> undef_then_define n ds)"
| "undef_then_define n (_ # ds) = undef_then_define n ds"

subsection \<open>Macro expansion\<close>

datatype pp_error =
    Unterminated_Invocation
  | Wrong_Arg_Count
  | Unsupported_Nesting

text \<open>The output of a scan so far, put in front of the output of the rest.\<close>

fun emit :: "token list \<Rightarrow> pp_error + token list \<Rightarrow> pp_error + token list" where
  "emit ts (Inl e) = Inl e"
| "emit ts (Inr out) = Inr (ts @ out)"

fun emit_result :: "pp_error + token list \<Rightarrow> pp_error + token list \<Rightarrow> pp_error + token list" where
  "emit_result (Inl e) r = Inl e"
| "emit_result (Inr ts) r = emit ts r"

text \<open>
  What an identifier means to the scanner: nothing, an object-like macro with its
  replacement, or a function-like macro with the function that maps the collected
  arguments to the replacement.
\<close>

datatype binding =
    Unbound
  | Object "pp_error + token list"
  | Function "arg list \<Rightarrow> pp_error + token list"

text \<open>
  The scanner reads the tokens from left to right. \<open>Pending x f\<close>: the name \<open>x\<close> of a
  function-like macro was read, and it is an invocation only if a left parenthesis
  follows. \<open>Args f d cur acc\<close>: inside the argument list of an invocation, at nesting
  depth \<open>d\<close> of inner parentheses, with the current argument \<open>cur\<close> (reversed) and
  the finished arguments \<open>acc\<close> (reversed). Commas separate arguments at depth 0 only.
\<close>

datatype scan_state =
    Idle
  | Pending string "arg list \<Rightarrow> pp_error + token list"
  | Args "arg list \<Rightarrow> pp_error + token list" nat "token list" "arg list"

fun rank :: "scan_state \<Rightarrow> nat" where
  "rank (Pending x f) = 1"
| "rank _ = 0"

function (sequential) scan :: "(string \<Rightarrow> binding) \<Rightarrow> scan_state \<Rightarrow> token list \<Rightarrow> pp_error + token list" where
  "scan look Idle [] = Inr []"
| "scan look Idle (Ident x # ts) =
     (case look x of
        Unbound \<Rightarrow> emit [Ident x] (scan look Idle ts)
      | Object r \<Rightarrow> emit_result r (scan look Idle ts)
      | Function f \<Rightarrow> scan look (Pending x f) ts)"
| "scan look Idle (t # ts) = emit [t] (scan look Idle ts)"
| "scan look (Pending x f) (LParen # ts) = scan look (Args f 0 [] []) ts"
| "scan look (Pending x f) ts = emit [Ident x] (scan look Idle ts)"
| "scan look (Args f d cur acc) [] = Inl Unterminated_Invocation"
| "scan look (Args f d cur acc) (LParen # ts) = scan look (Args f (Suc d) (LParen # cur) acc) ts"
| "scan look (Args f d cur acc) (RParen # ts) =
     (if d = 0 then emit_result (f (rev (rev cur # acc))) (scan look Idle ts)
      else scan look (Args f (d - 1) (RParen # cur) acc) ts)"
| "scan look (Args f d cur acc) (Comma # ts) =
     (if d = 0 then scan look (Args f 0 [] (rev cur # acc)) ts
      else scan look (Args f d (Comma # cur) acc) ts)"
| "scan look (Args f d cur acc) (t # ts) = scan look (Args f d (t # cur) acc) ts"
  by pat_completeness auto
termination
  by (relation "measures [\<lambda>(look, st, ts). length ts, \<lambda>(look, st, ts). rank st]") auto

text \<open>
  A generator takes exactly three arguments, which it receives as they were collected.
\<close>

definition invoke_external :: "(arg \<Rightarrow> arg \<Rightarrow> arg \<Rightarrow> token list) \<Rightarrow> arg list \<Rightarrow> pp_error + token list" where
  "invoke_external gen args =
     (case args of [c, t, q] \<Rightarrow> Inr (gen c t q) | _ \<Rightarrow> Inl Wrong_Arg_Count)"

text \<open>
  Rescanning inside a replacement list or an argument. Only the generator macros are
  expanded there; an object-like or function-like macro of the table in that place is
  outside this model and reported as such rather than passed through. The operators
  \<open>#\<close> and \<open>##\<close> are not modelled: the header does not use them.
\<close>

definition nested_binding :: "macros \<Rightarrow> string \<Rightarrow> binding" where
  "nested_binding tbl x =
     (case tbl x of
        None \<Rightarrow> Unbound
      | Some (ObjectLike b) \<Rightarrow> Object (Inl Unsupported_Nesting)
      | Some (FunctionLike ps b) \<Rightarrow> Function (\<lambda>args. Inl Unsupported_Nesting)
      | Some (External3 gen) \<Rightarrow> Function (invoke_external gen))"

definition rescan :: "macros \<Rightarrow> token list \<Rightarrow> pp_error + token list" where
  "rescan tbl ts = scan (nested_binding tbl) Idle ts"

text \<open>Each parameter in the replacement list is replaced by its argument.\<close>

fun substitute :: "(string \<rightharpoonup> token list) \<Rightarrow> token list \<Rightarrow> token list" where
  "substitute \<sigma> [] = []"
| "substitute \<sigma> (Ident x # ts) =
     (case \<sigma> x of None \<Rightarrow> [Ident x] | Some a \<Rightarrow> a) @ substitute \<sigma> ts"
| "substitute \<sigma> (t # ts) = t # substitute \<sigma> ts"

fun expand_args :: "macros \<Rightarrow> arg list \<Rightarrow> pp_error + arg list" where
  "expand_args tbl [] = Inr []"
| "expand_args tbl (a # as) =
     (case rescan tbl a of
        Inl e \<Rightarrow> Inl e
      | Inr a' \<Rightarrow> (case expand_args tbl as of Inl e \<Rightarrow> Inl e | Inr as' \<Rightarrow> Inr (a' # as')))"

text \<open>
  An invocation of a function-like macro of the table: the number of arguments must be
  the number of parameters (an empty pair of parentheses is no argument for a macro
  without parameters), the arguments are expanded, substituted for the parameters, and
  the result is rescanned.
\<close>

definition invoke :: "macros \<Rightarrow> string list \<Rightarrow> token list \<Rightarrow> arg list \<Rightarrow> pp_error + token list" where
  "invoke tbl ps body args =
     (if length args = length ps \<or> (ps = [] \<and> args = [[]]) then
        (case expand_args tbl args of
           Inl e \<Rightarrow> Inl e
         | Inr args' \<Rightarrow> rescan tbl (substitute (map_of (zip ps args')) body))
      else Inl Wrong_Arg_Count)"

definition top_binding :: "macros \<Rightarrow> string \<Rightarrow> binding" where
  "top_binding tbl x =
     (case tbl x of
        None \<Rightarrow> Unbound
      | Some (ObjectLike b) \<Rightarrow> Object (rescan tbl b)
      | Some (FunctionLike ps b) \<Rightarrow> Function (invoke tbl ps b)
      | Some (External3 gen) \<Rightarrow> Function (invoke_external gen))"

text \<open>Macro expansion of a token sequence of the program text.\<close>

definition expand :: "macros \<Rightarrow> token list \<Rightarrow> pp_error + token list" where
  "expand tbl ts = scan (top_binding tbl) Idle ts"

subsection \<open>The program text of an invocation\<close>

text \<open>The tokens of \<^verbatim>\<open>BOOT_TARGET_DEVICES(g)\<close>, for a generator macro named \<open>g\<close>.\<close>

definition invocation :: "string \<Rightarrow> token list" where
  "invocation g = [Ident ''BOOT_TARGET_DEVICES'', LParen, Ident g, RParen]"

text \<open>
  The device list: what the macro enumerates, recorded by the generator that returns
  its three arguments as one entry.
\<close>

definition device_list :: "(arg \<times> arg \<times> arg) list" where
  "device_list = BOOT_TARGET_DEVICES (\<lambda>c t q. [(c, t, q)])"

subsection \<open>The data model of the specification\<close>

text \<open>
  A boot target entry has a device class, a transport identifier and an instance
  qualifier, which is an integer index or not applicable. The priority list is the
  sequence the specification gives for the boot device priority list.
\<close>

datatype device_class = PXE | MMC | USB | DHCP

datatype qualifier = Instance nat | NotApplicable

type_synonym boot_target_entry = "device_class \<times> string \<times> qualifier"

definition priority_list :: "boot_target_entry list" where
  "priority_list =
     [(PXE, ''pxe'', NotApplicable),
      (MMC, ''mmc'', Instance 1),
      (MMC, ''mmc'', Instance 0),
      (USB, ''usb'', Instance 0),
      (DHCP, ''dhcp'', NotApplicable)]"

text \<open>Reading the arguments of one invocation as an entry of the data model.\<close>

fun spelling :: "token \<Rightarrow> string" where
  "spelling (Ident s) = s"
| "spelling (PPNumber s) = s"
| "spelling (StringLit s) = [CHR 0x22] @ s @ [CHR 0x22]"
| "spelling LParen = ''(''"
| "spelling RParen = '')''"
| "spelling Comma = '',''"

definition text_of :: "arg \<Rightarrow> string" where
  "text_of a = concat (map spelling a)"

definition decode_class :: "arg \<Rightarrow> device_class option" where
  "decode_class a =
     (if a = [Ident ''PXE''] then Some PXE
      else if a = [Ident ''MMC''] then Some MMC
      else if a = [Ident ''USB''] then Some USB
      else if a = [Ident ''DHCP''] then Some DHCP
      else None)"

definition digits :: "(char \<times> nat) list" where
  "digits =
     [(CHR ''0'', 0), (CHR ''1'', 1), (CHR ''2'', 2), (CHR ''3'', 3), (CHR ''4'', 4),
      (CHR ''5'', 5), (CHR ''6'', 6), (CHR ''7'', 7), (CHR ''8'', 8), (CHR ''9'', 9)]"

definition digit_value :: "char \<Rightarrow> nat option" where
  "digit_value c = map_of digits c"

fun decimal_value :: "nat \<Rightarrow> string \<Rightarrow> nat option" where
  "decimal_value n [] = Some n"
| "decimal_value n (c # cs) =
     (case digit_value c of None \<Rightarrow> None | Some d \<Rightarrow> decimal_value (10 * n + d) cs)"

text \<open>
  An instance qualifier is the identifier \<open>na\<close> or a decimal number: \<open>0\<close>, or digits
  that do not start with \<open>0\<close>.
\<close>

definition decode_qualifier :: "arg \<Rightarrow> qualifier option" where
  "decode_qualifier a =
     (case a of
        [Ident s] \<Rightarrow> if s = ''na'' then Some NotApplicable else None
      | [PPNumber ds] \<Rightarrow>
          if ds = [] then None
          else if hd ds = CHR ''0'' \<and> tl ds \<noteq> [] then None
          else map_option Instance (decimal_value 0 ds)
      | _ \<Rightarrow> None)"

definition decode_transport :: "arg \<Rightarrow> string option" where
  "decode_transport a = (case a of [Ident s] \<Rightarrow> Some s | _ \<Rightarrow> None)"

definition decode_entry :: "arg \<times> arg \<times> arg \<Rightarrow> boot_target_entry option" where
  "decode_entry e =
     (case e of (c, t, q) \<Rightarrow>
        (case decode_class c of
           None \<Rightarrow> None
         | Some k \<Rightarrow>
             (case decode_transport t of
                None \<Rightarrow> None
              | Some s \<Rightarrow>
                  (case decode_qualifier q of
                     None \<Rightarrow> None
                   | Some i \<Rightarrow> Some (k, s, i)))))"

text \<open>
  The boot script a boot command runs: \<open>run bootcmd_<name>\<close> runs the script of the
  boot target named \<open>name\<close>.
\<close>

definition bootcmd_target :: "string \<Rightarrow> string option" where
  "bootcmd_target cmd =
     (if take 12 cmd = ''run bootcmd_'' then Some (drop 12 cmd) else None)"

text \<open>The generator of the scenario: \<open>f(class, transport, qualifier)\<close> is the string
  \<open>try <transport><qualifier>\<close>.\<close>

definition try_generator :: "arg \<Rightarrow> arg \<Rightarrow> arg \<Rightarrow> token list" where
  "try_generator c t q = [StringLit (''try '' @ text_of t @ text_of q)]"

text \<open>
  An example of a build, for the concrete checks: a vendor header that defines a baud
  rate, a boot target list of its own, and the generator of the scenario under the
  name \<open>f\<close>.
\<close>

definition example_vendor_header :: "string \<Rightarrow> macros \<Rightarrow> macros" where
  "example_vendor_header f m =
     (if f = ''configs/xilinx_zynqmp.h'' then
        m(''CONFIG_SYS_BAUDRATE'' \<mapsto> ObjectLike [PPNumber ''115200''],
          ''BOOT_TARGET_DEVICES'' \<mapsto>
            FunctionLike [''func'']
              [Ident ''func'', LParen, Ident ''MMC'', Comma, Ident ''mmc'', Comma,
               PPNumber ''0'', RParen],
          ''f'' \<mapsto> External3 try_generator)
      else m)"

subsection \<open>Expansion in a preprocessor state\<close>

text \<open>
  What an expansion could read or change besides the macro table: the counter behind
  the predefined macro \<open>__COUNTER__\<close> of GCC, which gives the next number at each
  expansion, and the current line behind \<open>__LINE__\<close>.
\<close>

record pp_state =
  counter :: nat
  line :: nat

type_synonym st_result = "pp_error + token list \<times> pp_state"

text \<open>The decimal spelling of a number, for the tokens the predefined macros expand to.\<close>

definition digit_char :: "nat \<Rightarrow> char" where
  "digit_char d = ''0123456789'' ! d"

fun decimal :: "nat \<Rightarrow> string" where
  "decimal n = (if n < 10 then [digit_char n] else decimal (n div 10) @ [digit_char (n mod 10)])"

declare decimal.simps [simp del]

text \<open>
  The scanner again, with the state passed along: an expansion takes the state and
  returns its output with the state it leaves, and the rest of the text is scanned in
  that state. The equations are those of \<open>scan\<close>.
\<close>

fun emit_st :: "token list \<Rightarrow> st_result \<Rightarrow> st_result" where
  "emit_st ts (Inl e) = Inl e"
| "emit_st ts (Inr (out, s)) = Inr (ts @ out, s)"

text \<open>A result that does not depend on the state and leaves it as it is.\<close>

definition pure_result :: "pp_error + token list \<Rightarrow> pp_state \<Rightarrow> st_result" where
  "pure_result r s = (case r of Inl e \<Rightarrow> Inl e | Inr out \<Rightarrow> Inr (out, s))"

datatype st_binding =
    St_Unbound
  | St_Object "pp_state \<Rightarrow> st_result"
  | St_Function "arg list \<Rightarrow> pp_state \<Rightarrow> st_result"

datatype st_scan_state =
    St_Idle
  | St_Pending string "arg list \<Rightarrow> pp_state \<Rightarrow> st_result"
  | St_Args "arg list \<Rightarrow> pp_state \<Rightarrow> st_result" nat "token list" "arg list"

fun st_rank :: "st_scan_state \<Rightarrow> nat" where
  "st_rank (St_Pending x f) = 1"
| "st_rank _ = 0"

function (sequential) scan_st ::
  "(string \<Rightarrow> st_binding) \<Rightarrow> st_scan_state \<Rightarrow> token list \<Rightarrow> pp_state \<Rightarrow> st_result" where
  "scan_st look St_Idle [] s = Inr ([], s)"
| "scan_st look St_Idle (Ident x # ts) s =
     (case look x of
        St_Unbound \<Rightarrow> emit_st [Ident x] (scan_st look St_Idle ts s)
      | St_Object r \<Rightarrow>
          (case r s of
             Inl e \<Rightarrow> Inl e
           | Inr (out, s') \<Rightarrow> emit_st out (scan_st look St_Idle ts s'))
      | St_Function f \<Rightarrow> scan_st look (St_Pending x f) ts s)"
| "scan_st look St_Idle (t # ts) s = emit_st [t] (scan_st look St_Idle ts s)"
| "scan_st look (St_Pending x f) (LParen # ts) s = scan_st look (St_Args f 0 [] []) ts s"
| "scan_st look (St_Pending x f) ts s = emit_st [Ident x] (scan_st look St_Idle ts s)"
| "scan_st look (St_Args f d cur acc) [] s = Inl Unterminated_Invocation"
| "scan_st look (St_Args f d cur acc) (LParen # ts) s =
     scan_st look (St_Args f (Suc d) (LParen # cur) acc) ts s"
| "scan_st look (St_Args f d cur acc) (RParen # ts) s =
     (if d = 0 then
        (case f (rev (rev cur # acc)) s of
           Inl e \<Rightarrow> Inl e
         | Inr (out, s') \<Rightarrow> emit_st out (scan_st look St_Idle ts s'))
      else scan_st look (St_Args f (d - 1) (RParen # cur) acc) ts s)"
| "scan_st look (St_Args f d cur acc) (Comma # ts) s =
     (if d = 0 then scan_st look (St_Args f 0 [] (rev cur # acc)) ts s
      else scan_st look (St_Args f d (Comma # cur) acc) ts s)"
| "scan_st look (St_Args f d cur acc) (t # ts) s = scan_st look (St_Args f d (t # cur) acc) ts s"
  by pat_completeness auto
termination
  by (relation "measures [\<lambda>(look, st, ts, s). length ts, \<lambda>(look, st, ts, s). st_rank st]") auto

text \<open>
  The predefined macros. \<open>__COUNTER__\<close> expands to the counter and increments it;
  \<open>__LINE__\<close> expands to the current line. A binding of the macro table for one of
  these names comes first.
\<close>

definition builtin :: "string \<Rightarrow> st_binding" where
  "builtin x =
     (if x = ''__COUNTER__'' then
        St_Object (\<lambda>s. Inr ([PPNumber (decimal (counter s))], s\<lparr>counter := Suc (counter s)\<rparr>))
      else if x = ''__LINE__'' then
        St_Object (\<lambda>s. Inr ([PPNumber (decimal (line s))], s))
      else St_Unbound)"

text \<open>
  The bindings, rescanning, argument expansion and invocation as before, in the state.
  A generator is a function of its three arguments: its result is pure.
\<close>

definition nested_binding_st :: "macros \<Rightarrow> string \<Rightarrow> st_binding" where
  "nested_binding_st tbl x =
     (case tbl x of
        None \<Rightarrow> builtin x
      | Some (ObjectLike b) \<Rightarrow> St_Object (\<lambda>s. Inl Unsupported_Nesting)
      | Some (FunctionLike ps b) \<Rightarrow> St_Function (\<lambda>args s. Inl Unsupported_Nesting)
      | Some (External3 gen) \<Rightarrow> St_Function (\<lambda>args. pure_result (invoke_external gen args)))"

definition rescan_st :: "macros \<Rightarrow> token list \<Rightarrow> pp_state \<Rightarrow> st_result" where
  "rescan_st tbl ts s = scan_st (nested_binding_st tbl) St_Idle ts s"

fun expand_args_st :: "macros \<Rightarrow> arg list \<Rightarrow> pp_state \<Rightarrow> pp_error + arg list \<times> pp_state" where
  "expand_args_st tbl [] s = Inr ([], s)"
| "expand_args_st tbl (a # as) s =
     (case rescan_st tbl a s of
        Inl e \<Rightarrow> Inl e
      | Inr (a', s') \<Rightarrow>
          (case expand_args_st tbl as s' of
             Inl e \<Rightarrow> Inl e
           | Inr (as', s'') \<Rightarrow> Inr (a' # as', s'')))"

definition invoke_st :: "macros \<Rightarrow> string list \<Rightarrow> token list \<Rightarrow> arg list \<Rightarrow> pp_state \<Rightarrow> st_result" where
  "invoke_st tbl ps body args s =
     (if length args = length ps \<or> (ps = [] \<and> args = [[]]) then
        (case expand_args_st tbl args s of
           Inl e \<Rightarrow> Inl e
         | Inr (args', s') \<Rightarrow> rescan_st tbl (substitute (map_of (zip ps args')) body) s')
      else Inl Wrong_Arg_Count)"

definition top_binding_st :: "macros \<Rightarrow> string \<Rightarrow> st_binding" where
  "top_binding_st tbl x =
     (case tbl x of
        None \<Rightarrow> builtin x
      | Some (ObjectLike b) \<Rightarrow> St_Object (rescan_st tbl b)
      | Some (FunctionLike ps b) \<Rightarrow> St_Function (invoke_st tbl ps b)
      | Some (External3 gen) \<Rightarrow> St_Function (\<lambda>args. pure_result (invoke_external gen args)))"

definition expand_st :: "macros \<Rightarrow> token list \<Rightarrow> pp_state \<Rightarrow> st_result" where
  "expand_st tbl ts s = scan_st (top_binding_st tbl) St_Idle ts s"

text \<open>
  Two successive expansions of the same text: the second one runs in the state the
  first one left. The result is the two outputs and the final state.
\<close>

definition expand_twice ::
  "macros \<Rightarrow> token list \<Rightarrow> pp_state \<Rightarrow> pp_error + token list \<times> token list \<times> pp_state" where
  "expand_twice tbl ts s =
     (case expand_st tbl ts s of
        Inl e \<Rightarrow> Inl e
      | Inr (out1, s1) \<Rightarrow>
          (case expand_st tbl ts s1 of
             Inl e \<Rightarrow> Inl e
           | Inr (out2, s2) \<Rightarrow> Inr (out1, out2, s2)))"

text \<open>The bindings and scanner states of \<open>scan\<close> as those of \<open>scan_st\<close>.\<close>

fun lift_binding :: "binding \<Rightarrow> st_binding" where
  "lift_binding Unbound = St_Unbound"
| "lift_binding (Object r) = St_Object (pure_result r)"
| "lift_binding (Function f) = St_Function (\<lambda>args. pure_result (f args))"

fun lift_state :: "scan_state \<Rightarrow> st_scan_state" where
  "lift_state Idle = St_Idle"
| "lift_state (Pending x f) = St_Pending x (\<lambda>args. pure_result (f args))"
| "lift_state (Args f d cur acc) = St_Args (\<lambda>args. pure_result (f args)) d cur acc"

text \<open>
  A variant of the example build, for comparison: the replacement list of the header
  followed by \<open>__COUNTER__\<close>.
\<close>

definition counting_table :: macros where
  "counting_table =
     (preprocess example_vendor_header platform_top_h Map.empty)
       (''BOOT_TARGET_DEVICES'' \<mapsto>
          FunctionLike [''func''] (BOOT_TARGET_DEVICES_body @ [Ident ''__COUNTER__'']))"

section \<open>The macro table after the header\<close>

lemma preprocess_platform_top_h:
  "preprocess inc platform_top_h m =
     (inc ''configs/xilinx_zynqmp.h'' m)
       (''CONFIG_BOOTCOMMAND'' \<mapsto> ObjectLike [StringLit CONFIG_BOOTCOMMAND],
        ''BOOT_TARGET_DEVICES'' \<mapsto> FunctionLike [''func''] BOOT_TARGET_DEVICES_body)"
  by (simp add: preprocess_def platform_top_h_def fun_upd_twist)

lemma table_BOOT_TARGET_DEVICES:
  "preprocess inc platform_top_h m ''BOOT_TARGET_DEVICES'' =
     Some (FunctionLike [''func''] BOOT_TARGET_DEVICES_body)"
  by (simp add: preprocess_platform_top_h)

lemma table_CONFIG_BOOTCOMMAND:
  "preprocess inc platform_top_h m ''CONFIG_BOOTCOMMAND'' =
     Some (ObjectLike [StringLit CONFIG_BOOTCOMMAND])"
  by (simp add: preprocess_platform_top_h)

lemma table_other:
  assumes "n \<noteq> ''CONFIG_BOOTCOMMAND''" and "n \<noteq> ''BOOT_TARGET_DEVICES''"
  shows "preprocess inc platform_top_h m n = inc ''configs/xilinx_zynqmp.h'' m n"
  using assms by (simp add: preprocess_platform_top_h)

lemma defined_names_platform_top_h:
  "defined_names platform_top_h = [''CONFIG_BOOTCOMMAND'', ''BOOT_TARGET_DEVICES'']"
  by (simp add: platform_top_h_def)

lemma undefined_names_platform_top_h:
  "undefined_names platform_top_h = [''BOOT_TARGET_DEVICES'']"
  by (simp add: platform_top_h_def)

lemma example_table_f:
  "preprocess example_vendor_header platform_top_h Map.empty ''f'' =
     Some (External3 try_generator)"
  by (simp add: table_other example_vendor_header_def)

section \<open>The preprocessor model computes the HOL function\<close>

text \<open>
  The argument of the invocation is the name of a generator macro. Expanding it on its
  own leaves it as it is: no parenthesis follows it.
\<close>

lemma rescan_generator_name:
  assumes "tbl g = Some (External3 gen)"
  shows "rescan tbl [Ident g] = Inr [Ident g]"
  using assms by (simp add: rescan_def nested_binding_def)

text \<open>
  The replacement list with \<open>g\<close> for \<open>func\<close> is five invocations of \<open>g\<close>, and
  rescanning it yields the five outputs of the generator in a row.
\<close>

lemma rescan_body:
  assumes "tbl g = Some (External3 gen)"
  shows "rescan tbl (substitute [''func'' \<mapsto> [Ident g]] BOOT_TARGET_DEVICES_body) =
           Inr (BOOT_TARGET_DEVICES gen)"
  using assms
  by (simp add: rescan_def nested_binding_def BOOT_TARGET_DEVICES_body_def
        BOOT_TARGET_DEVICES_def invoke_external_def)

lemma invoke_BOOT_TARGET_DEVICES:
  assumes "tbl g = Some (External3 gen)"
  shows "invoke tbl [''func''] BOOT_TARGET_DEVICES_body [[Ident g]] =
           Inr (BOOT_TARGET_DEVICES gen)"
proof -
  have "expand_args tbl [[Ident g]] = Inr [[Ident g]]"
    by (simp add: rescan_generator_name [of tbl g gen, OF assms])
  then show ?thesis
    by (simp add: invoke_def rescan_body [of tbl g gen, OF assms])
qed

lemma expand_BOOT_TARGET_DEVICES:
  assumes "tbl ''BOOT_TARGET_DEVICES'' = Some (FunctionLike [''func''] BOOT_TARGET_DEVICES_body)"
      and "tbl g = Some (External3 gen)"
  shows "expand tbl (invocation g @ rest) = emit (BOOT_TARGET_DEVICES gen) (expand tbl rest)"
  using assms(1) invoke_BOOT_TARGET_DEVICES [of tbl g gen, OF assms(2)]
  by (simp add: expand_def invocation_def top_binding_def)

lemma expand_Nil: "expand tbl [] = Inr []"
  by (simp add: expand_def)

lemma expand_invocation:
  assumes "preprocess inc platform_top_h m g = Some (External3 gen)"
  shows "expand (preprocess inc platform_top_h m) (invocation g) =
           Inr (BOOT_TARGET_DEVICES gen)"
  using expand_BOOT_TARGET_DEVICES
          [of "preprocess inc platform_top_h m" g gen "[]", OF table_BOOT_TARGET_DEVICES assms]
  by (simp add: expand_Nil)

section \<open>The scanner on texts without invocations, and its errors\<close>

text \<open>A text in which no identifier is bound to a macro expands to itself.\<close>

lemma scan_unbound:
  assumes "\<And>x. look x = Unbound"
  shows "scan look Idle ts = Inr ts"
proof (induction ts)
  case Nil
  show ?case by simp
next
  case (Cons t ts)
  then show ?case using assms by (cases t) simp_all
qed

lemma expand_empty_table: "expand Map.empty ts = Inr ts"
  by (simp add: expand_def top_binding_def scan_unbound)

text \<open>
  Each error of the expansion is reached by some text in the example build: an
  invocation that is not closed, an invocation with two arguments, and an invocation
  whose argument is a macro of the table.
\<close>

lemma expand_unterminated:
  "expand (preprocess example_vendor_header platform_top_h Map.empty)
     [Ident ''BOOT_TARGET_DEVICES'', LParen, Ident ''f''] = Inl Unterminated_Invocation"
  by (simp add: expand_def top_binding_def table_BOOT_TARGET_DEVICES)

lemma expand_wrong_arg_count:
  "expand (preprocess example_vendor_header platform_top_h Map.empty)
     [Ident ''BOOT_TARGET_DEVICES'', LParen, Ident ''f'', Comma, Ident ''f'', RParen] =
   Inl Wrong_Arg_Count"
  by (simp add: expand_def top_binding_def table_BOOT_TARGET_DEVICES invoke_def)

lemma expand_unsupported_nesting:
  "expand (preprocess example_vendor_header platform_top_h Map.empty)
     (invocation ''CONFIG_BOOTCOMMAND'') = Inl Unsupported_Nesting"
  by (simp add: expand_def top_binding_def table_BOOT_TARGET_DEVICES invoke_def invocation_def
        rescan_def nested_binding_def table_CONFIG_BOOTCOMMAND)

section \<open>The device list\<close>

lemma device_list_eq:
  "device_list =
     [([Ident ''PXE''], [Ident ''pxe''], [Ident ''na'']),
      ([Ident ''MMC''], [Ident ''mmc''], [PPNumber ''1'']),
      ([Ident ''MMC''], [Ident ''mmc''], [PPNumber ''0'']),
      ([Ident ''USB''], [Ident ''usb''], [PPNumber ''0'']),
      ([Ident ''DHCP''], [Ident ''dhcp''], [Ident ''na''])]"
  by (simp add: device_list_def BOOT_TARGET_DEVICES_def)

lemma BOOT_TARGET_DEVICES_concat:
  "BOOT_TARGET_DEVICES func = concat (map (\<lambda>(c, t, q). func c t q) device_list)"
  by (simp add: device_list_eq) (simp add: BOOT_TARGET_DEVICES_def)

lemma BOOT_TARGET_DEVICES_try_generator:
  "BOOT_TARGET_DEVICES try_generator =
     [StringLit ''try pxena'', StringLit ''try mmc1'', StringLit ''try mmc0'',
      StringLit ''try usb0'', StringLit ''try dhcpna'']"
  by (simp add: BOOT_TARGET_DEVICES_def try_generator_def text_of_def)

section \<open>Expansion in a preprocessor state\<close>

text \<open>
  Where every binding is pure, the scanner with the state computes what \<open>scan\<close>
  computes and leaves the state as it is.
\<close>

lemma scan_st_pure:
  "scan_st (\<lambda>x. lift_binding (look x)) (lift_state st) ts s = pure_result (scan look st ts) s"
  by (induction look st ts arbitrary: s rule: scan.induct)
     (auto simp: pure_result_def split: binding.splits sum.splits)

text \<open>
  The replacement list of the header mentions no predefined macro, and a generator is a
  function of its arguments: the expansion of \<open>BOOT_TARGET_DEVICES(g)\<close> is the same in
  every state, and leaves the state as it is.
\<close>

lemma rescan_st_generator_name:
  assumes "tbl g = Some (External3 gen)"
  shows "rescan_st tbl [Ident g] s = Inr ([Ident g], s)"
  using assms by (simp add: rescan_st_def nested_binding_st_def)

lemma rescan_st_body:
  assumes "tbl g = Some (External3 gen)"
  shows "rescan_st tbl (substitute [''func'' \<mapsto> [Ident g]] BOOT_TARGET_DEVICES_body) s =
           Inr (BOOT_TARGET_DEVICES gen, s)"
  using assms
  by (simp add: rescan_st_def nested_binding_st_def BOOT_TARGET_DEVICES_body_def
        BOOT_TARGET_DEVICES_def invoke_external_def pure_result_def)

lemma invoke_st_BOOT_TARGET_DEVICES:
  assumes "tbl g = Some (External3 gen)"
  shows "invoke_st tbl [''func''] BOOT_TARGET_DEVICES_body [[Ident g]] s =
           Inr (BOOT_TARGET_DEVICES gen, s)"
proof -
  have "expand_args_st tbl [[Ident g]] s = Inr ([[Ident g]], s)"
    by (simp add: rescan_st_generator_name [of tbl g gen, OF assms])
  then show ?thesis
    by (simp add: invoke_st_def rescan_st_body [of tbl g gen, OF assms])
qed

lemma expand_st_BOOT_TARGET_DEVICES:
  assumes "tbl ''BOOT_TARGET_DEVICES'' = Some (FunctionLike [''func''] BOOT_TARGET_DEVICES_body)"
      and "tbl g = Some (External3 gen)"
  shows "expand_st tbl (invocation g @ rest) s =
           emit_st (BOOT_TARGET_DEVICES gen) (expand_st tbl rest s)"
  using assms(1) invoke_st_BOOT_TARGET_DEVICES [of tbl g gen, OF assms(2)]
  by (simp add: expand_st_def invocation_def top_binding_st_def)

lemma expand_st_Nil: "expand_st tbl [] s = Inr ([], s)"
  by (simp add: expand_st_def)

lemma expand_st_invocation:
  assumes "preprocess inc platform_top_h m g = Some (External3 gen)"
  shows "expand_st (preprocess inc platform_top_h m) (invocation g) s =
           Inr (BOOT_TARGET_DEVICES gen, s)"
  using expand_st_BOOT_TARGET_DEVICES
          [of "preprocess inc platform_top_h m" g gen "[]", OF table_BOOT_TARGET_DEVICES assms]
  by (simp add: expand_st_Nil)


text \<open>
  The state is read and changed by an expansion: two successive expansions of
  \<open>__COUNTER__\<close> differ, and so do two successive expansions of
  \<open>BOOT_TARGET_DEVICES(f)\<close> for the variant replacement list that mentions the
  counter.
\<close>

lemma decimal_7: "decimal 7 = ''7''" by (simp add: decimal.simps [of 7] digit_char_def)
lemma decimal_8: "decimal 8 = ''8''" by (simp add: decimal.simps [of 8] digit_char_def)

lemma counter_twice:
  "expand_twice (preprocess example_vendor_header platform_top_h Map.empty)
     [Ident ''__COUNTER__''] \<lparr>counter = 7, line = 42\<rparr> =
   Inr ([PPNumber ''7''], [PPNumber ''8''], \<lparr>counter = 9, line = 42\<rparr>)"
  by (simp add: expand_twice_def expand_st_def top_binding_st_def table_other
        example_vendor_header_def builtin_def decimal_7 decimal_8)

lemma counting_table_twice:
  "expand_twice counting_table (invocation ''f'') \<lparr>counter = 7, line = 42\<rparr> =
     Inr (BOOT_TARGET_DEVICES try_generator @ [PPNumber ''7''],
          BOOT_TARGET_DEVICES try_generator @ [PPNumber ''8''],
          \<lparr>counter = 9, line = 42\<rparr>)"
proof -
  have f: "counting_table ''f'' = Some (External3 try_generator)"
    by (simp add: counting_table_def example_table_f)
  have c: "counting_table ''__COUNTER__'' = None"
    by (simp add: counting_table_def table_other example_vendor_header_def)
  have b: "counting_table ''BOOT_TARGET_DEVICES'' =
             Some (FunctionLike [''func''] (BOOT_TARGET_DEVICES_body @ [Ident ''__COUNTER__'']))"
    by (simp add: counting_table_def)
  have arg: "expand_args_st counting_table [[Ident ''f'']] s = Inr ([[Ident ''f'']], s)" for s
    by (simp add: rescan_st_generator_name [of counting_table "''f''" try_generator, OF f])
  have inv: "invoke_st counting_table [''func'']
               (BOOT_TARGET_DEVICES_body @ [Ident ''__COUNTER__'']) [[Ident ''f'']] s =
             Inr (BOOT_TARGET_DEVICES try_generator @ [PPNumber (decimal (counter s))],
                  s\<lparr>counter := Suc (counter s)\<rparr>)" for s
    using f c
    by (simp add: invoke_st_def arg rescan_st_def nested_binding_st_def
          BOOT_TARGET_DEVICES_body_def BOOT_TARGET_DEVICES_def invoke_external_def
          pure_result_def builtin_def)
  show ?thesis
    using b
    by (simp add: expand_twice_def expand_st_def invocation_def top_binding_st_def inv
          decimal_7 decimal_8)
qed

section \<open>The claims\<close>

text \<open>
  C1: in every build (whatever the vendor header does to the macro table), the table
  binds \<open>BOOT_TARGET_DEVICES\<close> to the replacement list of the header, and the device
  list it enumerates has exactly 5 entries, which read, in this order, as PXE, MMC
  instance 1, MMC instance 0, USB instance 0 and DHCP.
\<close>

theorem device_list_five_entries:
  "preprocess inc platform_top_h m ''BOOT_TARGET_DEVICES'' =
     Some (FunctionLike [''func''] BOOT_TARGET_DEVICES_body) \<and>
   length device_list = 5 \<and>
   map decode_entry device_list = map Some priority_list"
  by (simp add: device_list_eq priority_list_def decode_entry_def decode_class_def
        decode_transport_def decode_qualifier_def digit_value_def digits_def table_BOOT_TARGET_DEVICES)

text \<open>
  C2: in a build whose table binds the name \<open>g\<close> to the generator
  \<open>f(class, transport, qualifier) = "try <transport><qualifier>"\<close>, the expansion of
  \<open>BOOT_TARGET_DEVICES(g)\<close> is exactly the five string literals \<open>try pxena\<close>,
  \<open>try mmc1\<close>, \<open>try mmc0\<close>, \<open>try usb0\<close>, \<open>try dhcpna\<close>, in this order.
\<close>

theorem try_generator_expansion:
  assumes "preprocess inc platform_top_h m g = Some (External3 try_generator)"
  shows "expand (preprocess inc platform_top_h m) (invocation g) =
           Inr [StringLit ''try pxena'', StringLit ''try mmc1'', StringLit ''try mmc0'',
                StringLit ''try usb0'', StringLit ''try dhcpna'']"
  by (simp add: expand_invocation [OF assms] BOOT_TARGET_DEVICES_try_generator)

text \<open>The example build binds \<open>f\<close> to that generator.\<close>

theorem try_generator_expansion_witness:
  "preprocess example_vendor_header platform_top_h Map.empty ''f'' =
     Some (External3 try_generator) \<and>
   expand (preprocess example_vendor_header platform_top_h Map.empty) (invocation ''f'') =
     Inr [StringLit ''try pxena'', StringLit ''try mmc1'', StringLit ''try mmc0'',
          StringLit ''try usb0'', StringLit ''try dhcpna'']"
  using try_generator_expansion [of example_vendor_header Map.empty "''f''", OF example_table_f]
    example_table_f
  by simp

text \<open>
  C3: in every build, \<open>CONFIG_BOOTCOMMAND\<close> expands to exactly one token, the string
  literal \<open>run bootcmd_pxe\<close>, which runs the boot script of PXE.
\<close>

theorem CONFIG_BOOTCOMMAND_expansion:
  "expand (preprocess inc platform_top_h m) [Ident ''CONFIG_BOOTCOMMAND''] =
     Inr [StringLit ''run bootcmd_pxe''] \<and>
   CONFIG_BOOTCOMMAND = ''run bootcmd_pxe'' \<and>
   bootcmd_target CONFIG_BOOTCOMMAND = Some ''pxe''"
  by (simp add: expand_def top_binding_def table_CONFIG_BOOTCOMMAND rescan_def)
     (simp add: CONFIG_BOOTCOMMAND_def bootcmd_target_def)

text \<open>
  C4, as stated: both macros are overridden by an \<open>#undef\<close> that stands before the
  \<open>#define\<close>. This fails for \<open>CONFIG_BOOTCOMMAND\<close>: the header has no \<open>#undef\<close>
  of it.
\<close>

theorem undef_then_define_both_counterexample:
  "\<not> (undef_then_define ''CONFIG_BOOTCOMMAND'' platform_top_h \<and>
      undef_then_define ''BOOT_TARGET_DEVICES'' platform_top_h)"
  by (simp add: platform_top_h_def)

text \<open>
  C4, amended: the header defines the two macros \<open>CONFIG_BOOTCOMMAND\<close> and
  \<open>BOOT_TARGET_DEVICES\<close>, in this order; its only \<open>#undef\<close> is of
  \<open>BOOT_TARGET_DEVICES\<close>, which is overridden by the undefine-then-redefine pattern,
  while \<open>CONFIG_BOOTCOMMAND\<close> is set by a \<open>#define\<close> alone.
\<close>

theorem undef_then_define_BOOT_TARGET_DEVICES:
  "undef_then_define ''BOOT_TARGET_DEVICES'' platform_top_h \<and>
   undefined_names platform_top_h = [''BOOT_TARGET_DEVICES''] \<and>
   defined_names platform_top_h = [''CONFIG_BOOTCOMMAND'', ''BOOT_TARGET_DEVICES'']"
  by (simp add: platform_top_h_def)

text \<open>
  C5: for every generator \<open>gen\<close>, bound to the name \<open>g\<close> in the build, the expansion
  of \<open>BOOT_TARGET_DEVICES(g)\<close> is the concatenation, in the order of the device list,
  of the outputs of \<open>gen\<close> on the (class, transport, qualifier) of each entry, and
  nothing else.
\<close>

theorem expansion_concat_map:
  assumes "preprocess inc platform_top_h m g = Some (External3 gen)"
  shows "expand (preprocess inc platform_top_h m) (invocation g) =
           Inr (concat (map (\<lambda>(c, t, q). gen c t q) device_list))"
  using expand_invocation [OF assms] BOOT_TARGET_DEVICES_concat [of gen] by simp

theorem expansion_concat_map_witness:
  "preprocess example_vendor_header platform_top_h Map.empty ''f'' =
     Some (External3 try_generator) \<and>
   expand (preprocess example_vendor_header platform_top_h Map.empty) (invocation ''f'') =
     Inr (concat (map (\<lambda>(c, t, q). try_generator c t q) device_list))"
  using expansion_concat_map [of example_vendor_header Map.empty "''f''", OF example_table_f]
    example_table_f
  by simp

text \<open>
  C6: for every generator bound in the build and every state of the preprocessor (the
  counter and the line, which an expansion in general reads and changes), two
  successive expansions of \<open>BOOT_TARGET_DEVICES(g)\<close>, the second in the state the
  first one left, yield the same output, and that output is a function of the generator
  only; the state after them is the state before. So does the text with the two
  invocations in a row.
\<close>

theorem expansion_twice:
  assumes "preprocess inc platform_top_h m g = Some (External3 gen)"
  shows "expand_twice (preprocess inc platform_top_h m) (invocation g) s =
           Inr (BOOT_TARGET_DEVICES gen, BOOT_TARGET_DEVICES gen, s) \<and>
         expand_st (preprocess inc platform_top_h m) (invocation g @ invocation g) s =
           Inr (BOOT_TARGET_DEVICES gen @ BOOT_TARGET_DEVICES gen, s)"
proof -
  let ?T = "preprocess inc platform_top_h m"
  have one: "expand_st ?T (invocation g) s' = Inr (BOOT_TARGET_DEVICES gen, s')" for s'
    by (rule expand_st_invocation [OF assms])
  have "expand_st ?T (invocation g @ invocation g) s =
          emit_st (BOOT_TARGET_DEVICES gen) (expand_st ?T (invocation g) s)"
    by (rule expand_st_BOOT_TARGET_DEVICES [OF table_BOOT_TARGET_DEVICES assms])
  with one show ?thesis by (simp add: expand_twice_def)
qed

theorem expansion_twice_witness:
  "preprocess example_vendor_header platform_top_h Map.empty ''f'' =
     Some (External3 try_generator) \<and>
   expand_twice (preprocess example_vendor_header platform_top_h Map.empty) (invocation ''f'')
       \<lparr>counter = 7, line = 42\<rparr> =
     Inr (BOOT_TARGET_DEVICES try_generator, BOOT_TARGET_DEVICES try_generator,
          \<lparr>counter = 7, line = 42\<rparr>) \<and>
   expand_st (preprocess example_vendor_header platform_top_h Map.empty)
       (invocation ''f'' @ invocation ''f'') \<lparr>counter = 7, line = 42\<rparr> =
     Inr (BOOT_TARGET_DEVICES try_generator @ BOOT_TARGET_DEVICES try_generator,
          \<lparr>counter = 7, line = 42\<rparr>)"
  using expansion_twice [of example_vendor_header Map.empty "''f''" try_generator
          "\<lparr>counter = 7, line = 42\<rparr>", OF example_table_f]
    example_table_f
  by simp

text \<open>
  C7: the header defines exactly two names, \<open>CONFIG_BOOTCOMMAND\<close> and
  \<open>BOOT_TARGET_DEVICES\<close>, and every other name has after the header the binding (or
  none) that the vendor header left.
\<close>

theorem other_definitions_unchanged:
  "defined_names platform_top_h = [''CONFIG_BOOTCOMMAND'', ''BOOT_TARGET_DEVICES''] \<and>
   (n \<notin> set (defined_names platform_top_h) \<longrightarrow>
      preprocess inc platform_top_h m n = inc ''configs/xilinx_zynqmp.h'' m n)"
  by (simp add: defined_names_platform_top_h table_other)

theorem other_definitions_unchanged_witness:
  "''CONFIG_SYS_BAUDRATE'' \<notin> set (defined_names platform_top_h) \<and>
   preprocess example_vendor_header platform_top_h Map.empty ''CONFIG_SYS_BAUDRATE'' =
     Some (ObjectLike [PPNumber ''115200''])"
  using other_definitions_unchanged [of "''CONFIG_SYS_BAUDRATE''" example_vendor_header Map.empty]
  by (simp add: example_vendor_header_def)

text \<open>
  C8: for every generator bound in the build, the expansion of
  \<open>BOOT_TARGET_DEVICES(g)\<close> produces an output: none of the errors of the expansion
  (an unterminated invocation, a wrong number of arguments, a nesting outside the
  model) occurs.
\<close>

theorem expansion_total:
  assumes "preprocess inc platform_top_h m g = Some (External3 gen)"
  shows "\<exists>out. expand (preprocess inc platform_top_h m) (invocation g) = Inr out"
  using expand_invocation [OF assms] by blast

theorem expansion_total_witness:
  "preprocess example_vendor_header platform_top_h Map.empty ''f'' =
     Some (External3 try_generator) \<and>
   (\<exists>out. expand (preprocess example_vendor_header platform_top_h Map.empty)
            (invocation ''f'') = Inr out)"
  using expansion_total [of example_vendor_header Map.empty "''f''", OF example_table_f]
    example_table_f
  by simp

text \<open>
  C9: the device list is not empty, its first entry has the class PXE, and the boot
  script that the default boot command runs is the one named by the transport of that
  first entry.
\<close>

theorem bootcommand_agrees_with_first_entry:
  "(case device_list of
      [] \<Rightarrow> False
    | (c, t, q) # rest \<Rightarrow>
        decode_class c = Some PXE \<and> bootcmd_target CONFIG_BOOTCOMMAND = Some (text_of t))"
  by (simp add: device_list_eq decode_class_def bootcmd_target_def CONFIG_BOOTCOMMAND_def
        text_of_def)

text \<open>
  C10: the (transport, qualifier) pairs of the device list are pairwise distinct; the
  transports and qualifiers are, in order, pxe with \<open>na\<close>, mmc with 1, mmc with 0, usb
  with 0 and dhcp with \<open>na\<close>: the network transports carry the qualifier that is not
  applicable, the storage transports an integer instance.
\<close>

theorem device_list_well_formed:
  "distinct (map (\<lambda>(c, t, q). (t, q)) device_list) \<and>
   map (\<lambda>(c, t, q). (text_of t, decode_qualifier q)) device_list =
     [(''pxe'', Some NotApplicable), (''mmc'', Some (Instance 1)),
      (''mmc'', Some (Instance 0)), (''usb'', Some (Instance 0)),
      (''dhcp'', Some NotApplicable)]"
  by (simp add: device_list_eq text_of_def decode_qualifier_def digit_value_def digits_def)

end
